theory Spec2Isabelle
  imports Main "HOL-Library.Word"
begin

unbundle bit_operations_syntax

section \<open>The Solaris headers\<close>

text \<open>
  \<^verbatim>\<open>stat.c\<close> is built with the Sun compiler in its default 32-bit mode, where
  \<^verbatim>\<open>mode_t\<close>, \<^verbatim>\<open>uid_t\<close>, \<^verbatim>\<open>gid_t\<close> and \<^verbatim>\<open>dev_t\<close> are 32-bit integers.
  Sizes, counts and times are integers without a bound, so that a \<^verbatim>\<open>time_t\<close> of 64
  bits is covered as well. The constants are those of \<^verbatim>\<open><sys/stat.h>\<close> and
  \<^verbatim>\<open><errno.h>\<close> on Solaris (octal there, hexadecimal here).
\<close>

type_synonym mode_t = "32 word"
type_synonym uid_t = "32 word"
type_synonym gid_t = "32 word"
type_synonym dev_t = "32 word"

definition S_IFMT :: mode_t where "S_IFMT = 0xF000"
definition S_IAMB :: mode_t where "S_IAMB = 0x1FF"
definition S_IFIFO :: mode_t where "S_IFIFO = 0x1000"
definition S_IFCHR :: mode_t where "S_IFCHR = 0x2000"
definition S_IFDIR :: mode_t where "S_IFDIR = 0x4000"
definition S_IFBLK :: mode_t where "S_IFBLK = 0x6000"
definition S_IFREG :: mode_t where "S_IFREG = 0x8000"
definition S_IFLNK :: mode_t where "S_IFLNK = 0xA000"
definition S_IFSOCK :: mode_t where "S_IFSOCK = 0xC000"
definition S_IFDOOR :: mode_t where "S_IFDOOR = 0xD000"
definition S_IFPORT :: mode_t where "S_IFPORT = 0xE000"

definition S_ISUID :: mode_t where "S_ISUID = 0x800"
definition S_ISGID :: mode_t where "S_ISGID = 0x400"
definition S_ISVTX :: mode_t where "S_ISVTX = 0x200"

definition S_IRUSR :: mode_t where "S_IRUSR = 0x100"
definition S_IWUSR :: mode_t where "S_IWUSR = 0x80"
definition S_IXUSR :: mode_t where "S_IXUSR = 0x40"
definition S_IRGRP :: mode_t where "S_IRGRP = 0x20"
definition S_IWGRP :: mode_t where "S_IWGRP = 0x10"
definition S_IXGRP :: mode_t where "S_IXGRP = 0x8"
definition S_IROTH :: mode_t where "S_IROTH = 0x4"
definition S_IWOTH :: mode_t where "S_IWOTH = 0x2"
definition S_IXOTH :: mode_t where "S_IXOTH = 0x1"

definition EINVAL :: int where "EINVAL = 22"
definition MAXPATHLEN :: nat where "MAXPATHLEN = 1024"

section \<open>The conversions of printf that the program uses\<close>

definition digit_char :: "nat \<Rightarrow> char" where
  "digit_char d = (if d < 16 then ''0123456789abcdef'' ! d else CHR ''?'')"

fun to_base :: "nat \<Rightarrow> nat \<Rightarrow> string" where
  "to_base b n =
     (if n < b \<or> b < 2 then [digit_char n]
      else to_base b (n div b) @ [digit_char (n mod b)])"

declare to_base.simps [simp del]

definition show_int :: "int \<Rightarrow> string" where
  "show_int i = (if i < 0 then CHR ''-'' # to_base 10 (nat (- i)) else to_base 10 (nat i))"

definition pad_left :: "nat \<Rightarrow> char \<Rightarrow> string \<Rightarrow> string" where
  "pad_left w c s = replicate (w - length s) c @ s"

definition pad_right :: "nat \<Rightarrow> char \<Rightarrow> string \<Rightarrow> string" where
  "pad_right w c s = s @ replicate (w - length s) c"

text \<open>\<^verbatim>\<open>%04o\<close> of a non-negative int.\<close>
definition fmt_04o :: "nat \<Rightarrow> string" where
  "fmt_04o n = pad_left 4 (CHR ''0'') (to_base 8 n)"

text \<open>\<^verbatim>\<open>%5d\<close>, \<^verbatim>\<open>%d\<close>, \<^verbatim>\<open>%-10lld\<close> and \<^verbatim>\<open>%-lld\<close>.\<close>
definition fmt_5d :: "int \<Rightarrow> string" where
  "fmt_5d i = pad_left 5 (CHR '' '') (show_int i)"

definition fmt_d :: "int \<Rightarrow> string" where
  "fmt_d i = show_int i"

definition fmt_m10lld :: "int \<Rightarrow> string" where
  "fmt_m10lld i = pad_right 10 (CHR '' '') (show_int i)"

definition fmt_mlld :: "int \<Rightarrow> string" where
  "fmt_mlld i = show_int i"

text \<open>\<^verbatim>\<open>%x\<close> of an unsigned value, \<^verbatim>\<open>%8s\<close> of a string.\<close>
definition fmt_x :: "nat \<Rightarrow> string" where
  "fmt_x n = to_base 16 n"

definition fmt_8s :: "string \<Rightarrow> string" where
  "fmt_8s s = pad_left 8 (CHR '' '') s"

text \<open>
  \<^verbatim>\<open>%02d\<close> and \<^verbatim>\<open>%04d\<close>, used by \<^verbatim>\<open>strftime\<close>: the zeros go between the
  sign and the digits.
\<close>

definition fmt_0d :: "nat \<Rightarrow> int \<Rightarrow> string" where
  "fmt_0d w i =
     (if i < 0 then CHR ''-'' # pad_left (w - 1) (CHR ''0'') (to_base 10 (nat (- i)))
      else pad_left w (CHR ''0'') (to_base 10 (nat i)))"

definition fmt_02d :: "int \<Rightarrow> string" where
  "fmt_02d i = fmt_0d 2 i"

definition fmt_04d :: "int \<Rightarrow> string" where
  "fmt_04d i = fmt_0d 4 i"

text \<open>What \<^verbatim>\<open>%s\<close> reads from a char array: the bytes before the first NUL.\<close>
definition c_string :: "string \<Rightarrow> string" where
  "c_string buf = takeWhile (\<lambda>c. c \<noteq> CHR 0x00) buf"

abbreviation NL :: string where "NL \<equiv> [CHR 0x0A]"
abbreviation TAB :: string where "TAB \<equiv> [CHR 0x09]"
abbreviation BQ :: string where "BQ \<equiv> [CHR 0x60]"
abbreviation SQ :: string where "SQ \<equiv> [CHR 0x27]"

section \<open>Decoding the mode\<close>

definition is_device_type :: "mode_t \<Rightarrow> bool" where
  "is_device_type st_mode =
     (let t = st_mode AND S_IFMT in
      if t = S_IFCHR \<or> t = S_IFBLK then True else False)"

definition is_symlink :: "mode_t \<Rightarrow> bool" where
  "is_symlink st_mode = (st_mode AND S_IFMT = S_IFLNK)"

definition file_type :: "mode_t \<Rightarrow> string" where
  "file_type st_mode =
     (let t = st_mode AND S_IFMT in
      if t = S_IFIFO then ''named fifo''
      else if t = S_IFCHR then ''character device''
      else if t = S_IFDIR then ''directory''
      else if t = S_IFBLK then ''block device''
      else if t = S_IFREG then ''regular file''
      else if t = S_IFLNK then ''symbolic link''
      else if t = S_IFSOCK then ''socket''
      else if t = S_IFDOOR then ''door''
      else if t = S_IFPORT then ''event port''
      else ''<unknown>'')"

definition file_type_char :: "mode_t \<Rightarrow> char" where
  "file_type_char st_mode =
     (let t = st_mode AND S_IFMT in
      if t = S_IFIFO then CHR ''p''
      else if t = S_IFCHR then CHR ''c''
      else if t = S_IFDIR then CHR ''d''
      else if t = S_IFBLK then CHR ''b''
      else if t = S_IFREG then CHR ''-''
      else if t = S_IFLNK then CHR ''l''
      else if t = S_IFSOCK then CHR ''s''
      else if t = S_IFDOOR then CHR ''D''
      else if t = S_IFPORT then CHR ''P''
      else CHR ''?'')"

definition user_perms :: "mode_t \<Rightarrow> string" where
  "user_perms st_mode =
     [if st_mode AND S_IRUSR \<noteq> 0 then CHR ''r'' else CHR ''-'',
      if st_mode AND S_IWUSR \<noteq> 0 then CHR ''w'' else CHR ''-'',
      if st_mode AND S_ISUID \<noteq> 0
      then (if st_mode AND S_IXUSR \<noteq> 0 then CHR ''s'' else CHR ''S'')
      else (if st_mode AND S_IXUSR \<noteq> 0 then CHR ''x'' else CHR ''-'')]"

definition group_perms :: "mode_t \<Rightarrow> string" where
  "group_perms st_mode =
     [if st_mode AND S_IRGRP \<noteq> 0 then CHR ''r'' else CHR ''-'',
      if st_mode AND S_IWGRP \<noteq> 0 then CHR ''w'' else CHR ''-'',
      if st_mode AND S_ISGID \<noteq> 0
      then (if st_mode AND S_IXGRP \<noteq> 0 then CHR ''s'' else CHR ''S'')
      else (if st_mode AND S_IXGRP \<noteq> 0 then CHR ''x'' else CHR ''-'')]"

definition other_perms :: "mode_t \<Rightarrow> string" where
  "other_perms st_mode =
     [if st_mode AND S_IROTH \<noteq> 0 then CHR ''r'' else CHR ''-'',
      if st_mode AND S_IWOTH \<noteq> 0 then CHR ''w'' else CHR ''-'',
      if st_mode AND S_IXOTH \<noteq> 0 then CHR ''x'' else CHR ''-'']"

text \<open>
  The two mode fields that \<^verbatim>\<open>decode_permissions\<close> prints between the parentheses of
  \<^verbatim>\<open>Access: (%04o/%c%s%s%s)\<close>.
\<close>

definition octal_field :: "mode_t \<Rightarrow> string" where
  "octal_field st_mode = fmt_04o (unat (st_mode AND S_IAMB))"

definition symbolic_mode :: "mode_t \<Rightarrow> string" where
  "symbolic_mode st_mode =
     file_type_char st_mode # user_perms st_mode @ group_perms st_mode @ other_perms st_mode"

section \<open>The operating system as the program sees it\<close>

record stat =
  st_mode :: mode_t
  st_uid :: uid_t
  st_gid :: gid_t
  st_size :: int
  st_blocks :: int
  st_blksize :: int
  st_dev :: dev_t
  st_rdev :: dev_t
  st_ino :: int
  st_nlink :: int
  st_atime :: int
  st_mtime :: int
  st_ctime :: int

record tm =
  tm_sec :: int
  tm_min :: int
  tm_hour :: int
  tm_mday :: int
  tm_mon :: int
  tm_year :: int
  tm_isdst :: int

text \<open>
  The system calls and library functions that \<^verbatim>\<open>stat.c\<close> calls are parameters.
  A failing \<^verbatim>\<open>stat\<close>, \<^verbatim>\<open>lstat\<close> or \<^verbatim>\<open>readlink\<close> is \<open>Inl errno\<close>.
  \<^item> \<open>sys_readlink\<close> gives the contents of the link; the call copies them into the
    caller's buffer and appends no NUL.
  \<^item> \<open>getpwuid_r\<close> and \<open>getgrgid_r\<close> are the Solaris four-argument functions, which
    return a null pointer when there is no entry; \<open>Some s\<close> is a successful call that
    leaves the C string \<open>s\<close> at the start of the caller's buffer.
  \<^item> \<open>timezone\<close> and \<open>altzone\<close> are the libc globals (seconds west of UTC) from which
    \<^verbatim>\<open>strftime\<close> derives \<^verbatim>\<open>%z\<close>.
  \<^item> \<open>perror_errno\<close> is the value that \<^verbatim>\<open>errno\<close> holds when \<^verbatim>\<open>perror\<close> returns, for
    the value it held at the call: the same value when \<^verbatim>\<open>perror\<close> succeeds, another one
    when writing to standard error fails.
  \<^item> \<open>getopt_diag n\<close> is the diagnostic that the \<open>n\<close>-th call of \<^verbatim>\<open>getopt_long\<close>
    writes on standard error when it meets an unknown option (\<^verbatim>\<open>opterr\<close> is left at 1).
  \<^item> \<open>stack\<close> is what the bytes of the array \<^verbatim>\<open>target\<close> hold when \<^verbatim>\<open>main\<close> is entered.
\<close>

record env =
  sys_stat :: "string \<Rightarrow> int + stat"
  sys_lstat :: "string \<Rightarrow> int + stat"
  sys_readlink :: "string \<Rightarrow> int + string"
  getpwuid_r :: "uid_t \<Rightarrow> string option"
  getgrgid_r :: "gid_t \<Rightarrow> string option"
  localtime_r :: "int \<Rightarrow> tm"
  timezone :: int
  altzone :: int
  major :: "dev_t \<Rightarrow> int"
  minor :: "dev_t \<Rightarrow> int"
  strerror :: "int \<Rightarrow> string"
  perror_errno :: "int \<Rightarrow> int"
  getopt_diag :: "nat \<Rightarrow> string"
  stack :: string

text \<open>
  The state that the program changes: standard output, standard error, the paths handed
  to the metadata query so far, and the bytes of the array \<^verbatim>\<open>target\<close>, which lives in
  the frame of \<^verbatim>\<open>main\<close> and keeps its bytes from one iteration to the next. Only the
  array itself is modelled: \<^verbatim>\<open>%s\<close> of an array that holds no NUL reads on past its end
  in C, and stops at its end here.
\<close>

record world =
  out :: string
  err :: string
  queries :: "string list"
  target :: string

definition printf :: "string \<Rightarrow> world \<Rightarrow> world" where
  "printf s w = w\<lparr>out := out w @ s\<rparr>"

text \<open>
  \<^verbatim>\<open>perror(msg)\<close> called with \<^verbatim>\<open>errno\<close> holding \<open>errno\<close>: the value of \<^verbatim>\<open>errno\<close>
  when it returns, and the state with the message sent to standard error.
\<close>

definition perror :: "env \<Rightarrow> string \<Rightarrow> int \<Rightarrow> world \<Rightarrow> int \<times> world" where
  "perror env msg errno w =
     (perror_errno env errno, w\<lparr>err := err w @ msg @ '': '' @ strerror env errno @ NL\<rparr>)"

text \<open>
  The \<open>n\<close>-th call of \<^verbatim>\<open>getopt_long\<close>, which returns \<open>opt_c\<close>: for an unknown option it
  returns \<^verbatim>\<open>?\<close> after writing its diagnostic.
\<close>

definition getopt_long :: "env \<Rightarrow> nat \<Rightarrow> char \<Rightarrow> world \<Rightarrow> world" where
  "getopt_long env n opt_c w =
     (if opt_c = CHR ''?'' then w\<lparr>err := err w @ getopt_diag env n\<rparr> else w)"

text \<open>
  \<^verbatim>\<open>readlink(path, buf, bufsiz)\<close>: the count of bytes placed and the buffer afterwards;
  at most \<open>bufsiz\<close> bytes are placed, the rest of the buffer is untouched.
\<close>

definition readlink :: "env \<Rightarrow> string \<Rightarrow> string \<Rightarrow> int \<times> string" where
  "readlink env path buf =
     (case sys_readlink env path of
        Inl errno \<Rightarrow> (- 1, buf)
      | Inr bytes \<Rightarrow>
          (let n = min (length bytes) (length buf)
           in (int n, take n bytes @ drop n buf)))"

section \<open>The program\<close>

definition usage :: "string \<Rightarrow> string" where
  "usage exe =
     ''usage:'' @ NL @ NL @
     ''  '' @ exe @ '' {options} <path> {<path> ..}'' @ NL @ NL @
     '' options:'' @ NL @ NL @
     ''  -h/--help            display this help and exit'' @ NL @
     ''  -L/--dereference     follow symlinks'' @ NL @
     NL"

definition get_uid_string :: "env \<Rightarrow> uid_t \<Rightarrow> string" where
  "get_uid_string env the_uid =
     (case getpwuid_r env the_uid of Some uid_str \<Rightarrow> uid_str | None \<Rightarrow> ''<unknown>'')"

definition get_gid_string :: "env \<Rightarrow> gid_t \<Rightarrow> string" where
  "get_gid_string env the_gid =
     (case getgrgid_r env the_gid of Some gid_str \<Rightarrow> gid_str | None \<Rightarrow> ''<unknown>'')"

definition uid_field :: "env \<Rightarrow> uid_t \<Rightarrow> string" where
  "uid_field env u = ''Uid: ('' @ fmt_5d (sint u) @ ''/'' @ fmt_8s (get_uid_string env u) @ '')''"

definition gid_field :: "env \<Rightarrow> gid_t \<Rightarrow> string" where
  "gid_field env g = ''Gid: ('' @ fmt_5d (sint g) @ ''/'' @ fmt_8s (get_gid_string env g) @ '')''"

text \<open>The line that \<^verbatim>\<open>decode_permissions\<close> prints.\<close>

definition decode_permissions :: "env \<Rightarrow> stat \<Rightarrow> string" where
  "decode_permissions env finfo =
     ''Access: ('' @ octal_field (st_mode finfo) @ ''/'' @ symbolic_mode (st_mode finfo) @ '')  '' @
     uid_field env (st_uid finfo) @ ''   '' @ gid_field env (st_gid finfo) @ NL"

text \<open>
  \<^verbatim>\<open>strftime\<close> with the format \<^verbatim>\<open>%Y-%m-%d %H:%M:%S%z\<close>. \<^verbatim>\<open>%z\<close> is empty when
  \<open>tm_isdst\<close> is negative, else the offset east of UTC as a sign and \<^verbatim>\<open>hhmm\<close>.
\<close>

definition fmt_z :: "env \<Rightarrow> tm \<Rightarrow> string" where
  "fmt_z env t =
     (if tm_isdst t < 0 then []
      else
        (let diff = (if tm_isdst t = 0 then - timezone env else - altzone env);
             sign = (if diff < 0 then ''-'' else ''+'');
             mins = \<bar>diff\<bar> div 60
         in sign @ fmt_04d ((mins div 60) * 100 + mins mod 60)))"

definition strftime :: "env \<Rightarrow> tm \<Rightarrow> string" where
  "strftime env t =
     show_int (tm_year t + 1900) @ ''-'' @ fmt_02d (tm_mon t + 1) @ ''-'' @ fmt_02d (tm_mday t) @
     '' '' @ fmt_02d (tm_hour t) @ '':'' @ fmt_02d (tm_min t) @ '':'' @ fmt_02d (tm_sec t) @
     fmt_z env t"

text \<open>\<^verbatim>\<open>format_times\<close> fills the globals \<^verbatim>\<open>atime_str\<close>, \<^verbatim>\<open>mtime_str\<close>, \<^verbatim>\<open>ctime_str\<close>.\<close>

definition format_times :: "env \<Rightarrow> stat \<Rightarrow> string \<times> string \<times> string" where
  "format_times env finfo =
     (strftime env (localtime_r env (st_atime finfo)),
      strftime env (localtime_r env (st_mtime finfo)),
      strftime env (localtime_r env (st_ctime finfo)))"

text \<open>The first \<^verbatim>\<open>printf\<close> of the loop body: the line that names the file.\<close>

definition print_file_line :: "env \<Rightarrow> string \<Rightarrow> stat \<Rightarrow> world \<Rightarrow> world" where
  "print_file_line env path finfo w =
     (if is_symlink (st_mode finfo) then
        (case readlink env path (target w) of
           (n, buf) \<Rightarrow>
             if n \<ge> 0
             then printf (''  File: '' @ BQ @ path @ SQ @ '' -> '' @ BQ @ c_string buf @ SQ @ NL)
                    (w\<lparr>target := buf\<rparr>)
             else printf (''  File: '' @ BQ @ path @ SQ @ '' -> <unable to read target>'' @ NL)
                    (w\<lparr>target := buf\<rparr>))
      else printf (''  File: '' @ BQ @ path @ SQ @ NL) w)"

definition size_device_lines :: "env \<Rightarrow> stat \<Rightarrow> string" where
  "size_device_lines env finfo =
     ''  Size: '' @ fmt_m10lld (st_size finfo) @ TAB @ ''Blocks: '' @ fmt_m10lld (st_blocks finfo) @
     '' IO Block: '' @ fmt_mlld (st_blksize finfo) @ '' '' @ file_type (st_mode finfo) @ NL @
     ''Device: '' @ fmt_x (unat (st_dev finfo)) @ ''h/'' @ fmt_d (sint (st_dev finfo)) @
     ''d Inode: '' @ fmt_m10lld (st_ino finfo) @ '' Links: '' @ fmt_mlld (st_nlink finfo) @
     (if is_device_type (st_mode finfo)
      then '' Device type: '' @ fmt_d (major env (st_rdev finfo)) @ '','' @
           fmt_d (minor env (st_rdev finfo)) @ NL
      else NL)"

definition times_lines :: "string \<times> string \<times> string \<Rightarrow> string" where
  "times_lines ts =
     (case ts of (atime_str, mtime_str, ctime_str) \<Rightarrow>
        ''Access: '' @ atime_str @ NL @ ''Modify: '' @ mtime_str @ NL @ ''Change: '' @ ctime_str @ NL)"

text \<open>The branch of the loop body taken when the metadata query returns 0.\<close>

definition show_file :: "env \<Rightarrow> string \<Rightarrow> stat \<Rightarrow> world \<Rightarrow> world" where
  "show_file env path finfo w =
     (let ts = format_times env finfo;
          w1 = print_file_line env path finfo w;
          w2 = printf (size_device_lines env finfo) w1;
          w3 = printf (decode_permissions env finfo) w2
      in printf (times_lines ts) w3)"

definition stat_fn :: "env \<Rightarrow> bool \<Rightarrow> string \<Rightarrow> int + stat" where
  "stat_fn env follow_symlinks = (if follow_symlinks then sys_stat env else sys_lstat env)"

text \<open>
  The loop \<^verbatim>\<open>while ( (rc == 0) && (argn < argc) )\<close> over the remaining arguments. In
  the failing branch \<^verbatim>\<open>perror\<close> is called first and \<^verbatim>\<open>rc = errno\<close> reads
  \<^verbatim>\<open>errno\<close> afterwards.
\<close>

fun stat_loop :: "env \<Rightarrow> bool \<Rightarrow> string list \<Rightarrow> int \<Rightarrow> world \<Rightarrow> int \<times> world" where
  "stat_loop env follow [] rc w = (rc, w)"
| "stat_loop env follow (path # rest) rc w =
     (if rc \<noteq> 0 then (rc, w)
      else
        (let w' = w\<lparr>queries := queries w @ [path]\<rparr>
         in case stat_fn env follow path of
              Inr finfo \<Rightarrow> stat_loop env follow rest rc (show_file env path finfo w')
            | Inl errno \<Rightarrow>
                (case perror env ''Unable to stat() file'' errno w' of
                   (errno', w'') \<Rightarrow> stat_loop env follow rest errno' w'')))"

text \<open>
  The option loop, over the characters that \<^verbatim>\<open>getopt_long\<close> returns before -1, the
  calls numbered from \<open>n\<close>; \<open>None\<close> is the \<^verbatim>\<open>exit(0)\<close> of \<^verbatim>\<open>-h\<close>, after the usage
  text.
\<close>

fun parse_options ::
  "env \<Rightarrow> string \<Rightarrow> char list \<Rightarrow> nat \<Rightarrow> bool \<Rightarrow> world \<Rightarrow> bool option \<times> world" where
  "parse_options env exe [] n follow_symlinks w = (Some follow_symlinks, w)"
| "parse_options env exe (opt_c # cs) n follow_symlinks w =
     (let w' = getopt_long env n opt_c w
      in if opt_c = CHR ''L'' then parse_options env exe cs (Suc n) True w'
         else if opt_c = CHR ''h'' then (None, printf (usage exe) w')
         else parse_options env exe cs (Suc n) follow_symlinks w')"

definition world0 :: "env \<Rightarrow> world" where
  "world0 env = \<lparr>out = [], err = [], queries = [], target = stack env\<rparr>"

text \<open>
  \<^verbatim>\<open>main\<close>: \<open>exe\<close> is \<^verbatim>\<open>argv[0]\<close>, \<open>opts\<close> the options that \<^verbatim>\<open>getopt_long\<close> finds,
  \<open>paths\<close> the arguments from \<^verbatim>\<open>optind\<close> on. The result is the exit code and the
  final state.
\<close>

definition main :: "env \<Rightarrow> string \<Rightarrow> char list \<Rightarrow> string list \<Rightarrow> int \<times> world" where
  "main env exe opts paths =
     (case parse_options env exe opts 0 False (world0 env) of
        (None, w) \<Rightarrow> (0, w)
      | (Some follow_symlinks, w) \<Rightarrow>
          if paths = []
          then (EINVAL, printf (usage exe) (printf (''ERROR:  no files provided'' @ NL) w))
          else stat_loop env follow_symlinks paths 0 w)"

section \<open>Notions used to state the properties\<close>

text \<open>
  What the calls of \<^verbatim>\<open>getopt_long\<close> that return the characters \<open>opts\<close>, numbered from
  \<open>n\<close>, write on standard error: the diagnostics of the unknown options.
\<close>

fun getopt_errors :: "env \<Rightarrow> char list \<Rightarrow> nat \<Rightarrow> string" where
  "getopt_errors env [] n = []"
| "getopt_errors env (c # cs) n =
     (if c = CHR ''?'' then getopt_diag env n else []) @ getopt_errors env cs (Suc n)"










section \<open>An example system\<close>

text \<open>
  \<^verbatim>\<open>localtime_r\<close> for a zone that is always \<open>gmtoff\<close> seconds east of UTC: the civil
  date of a day number counted from 1970-01-01 in the proleptic Gregorian calendar.
\<close>

definition civil_from_days :: "int \<Rightarrow> int \<times> int \<times> int" where
  "civil_from_days days =
     (let z = days + 719468;
          era = z div 146097;
          doe = z mod 146097;
          yoe = (doe - doe div 1460 + doe div 36524 - doe div 146096) div 365;
          doy = doe - (365 * yoe + yoe div 4 - yoe div 100);
          mp = (5 * doy + 2) div 153;
          d = doy - (153 * mp + 2) div 5 + 1;
          m = (if mp < 10 then mp + 3 else mp - 9)
      in (yoe + era * 400 + (if m \<le> 2 then 1 else 0), m, d))"

definition localtime_fixed :: "int \<Rightarrow> int \<Rightarrow> tm" where
  "localtime_fixed gmtoff t =
     (let s = t + gmtoff; r = s mod 86400
      in case civil_from_days (s div 86400) of (y, m, d) \<Rightarrow>
           \<lparr>tm_sec = r mod 60, tm_min = (r div 60) mod 60, tm_hour = r div 3600,
            tm_mday = d, tm_mon = m - 1, tm_year = y - 1900, tm_isdst = 0\<rparr>)"

text \<open>
  The root directory of the sample output in the header comment of \<^verbatim>\<open>stat.c\<close>, a
  regular file whose owner has no passwd entry, and a symbolic link.
\<close>

definition root_stat :: stat where
  "root_stat = \<lparr>st_mode = 0x41ED, st_uid = 0, st_gid = 0, st_size = 1024, st_blocks = 2,
     st_blksize = 8192, st_dev = 0x1540001, st_rdev = 0, st_ino = 2, st_nlink = 38,
     st_atime = 1517501132, st_mtime = 1516683698, st_ctime = 1516683698\<rparr>"

definition notes_stat :: stat where
  "notes_stat = \<lparr>st_mode = 0x81A4, st_uid = 1001, st_gid = 10, st_size = 120, st_blocks = 1,
     st_blksize = 8192, st_dev = 0x1540001, st_rdev = 0, st_ino = 77, st_nlink = 1,
     st_atime = 1517501132, st_mtime = 1516683698, st_ctime = 1516683698\<rparr>"

definition link_stat :: stat where
  "link_stat = \<lparr>st_mode = 0xA1FF, st_uid = 0, st_gid = 0, st_size = 6, st_blocks = 1,
     st_blksize = 8192, st_dev = 0x1540001, st_rdev = 0, st_ino = 78, st_nlink = 1,
     st_atime = 1517501132, st_mtime = 1516683698, st_ctime = 1516683698\<rparr>"

text \<open>
  A system with the directory \<^verbatim>\<open>/\<close>, the regular file \<^verbatim>\<open>notes\<close>, the links
  \<^verbatim>\<open>a -> /very/long/target\<close>, \<^verbatim>\<open>b -> /short\<close> and \<^verbatim>\<open>c\<close> (whose contents cannot be
  read), the unreadable \<^verbatim>\<open>secret\<close> (EACCES, 13) and nothing else (ENOENT, 2), in a
  zone five hours west of UTC. \<^verbatim>\<open>perror\<close> succeeds and leaves \<^verbatim>\<open>errno\<close> as it is. The
  array \<^verbatim>\<open>target\<close> starts out zeroed.
\<close>

definition example_env :: env where
  "example_env =
     \<lparr>sys_stat = (\<lambda>p. if p = ''/'' \<or> p = ''b'' then Inr root_stat
                      else if p = ''notes'' \<or> p = ''a'' \<or> p = ''c'' then Inr notes_stat
                      else if p = ''secret'' then Inl 13
                      else Inl 2),
      sys_lstat = (\<lambda>p. if p = ''/'' then Inr root_stat
                       else if p = ''notes'' then Inr notes_stat
                       else if p = ''a'' \<or> p = ''b'' \<or> p = ''c'' then Inr link_stat
                       else if p = ''secret'' then Inl 13
                       else Inl 2),
      sys_readlink = (\<lambda>p. if p = ''a'' then Inr ''/very/long/target''
                          else if p = ''b'' then Inr ''/short''
                          else if p = ''c'' then Inl 5
                          else Inl 22),
      getpwuid_r = (\<lambda>u. if u = 0 then Some ''root'' else None),
      getgrgid_r = (\<lambda>g. if g = 0 then Some ''root'' else if g = 10 then Some ''staff'' else None),
      localtime_r = localtime_fixed (- 18000),
      timezone = 18000,
      altzone = 14400,
      major = (\<lambda>d. uint (drop_bit 18 d AND 0x3FFF)),
      minor = (\<lambda>d. uint (d AND 0x3FFFF)),
      strerror = (\<lambda>e. if e = 2 then ''No such file or directory''
                      else if e = 13 then ''Permission denied'' else ''Unknown error''),
      perror_errno = (\<lambda>errno. errno),
      getopt_diag = (\<lambda>n. ''stat: illegal option -- x'' @ NL),
      stack = replicate MAXPATHLEN (CHR 0x00)\<rparr>"

text \<open>The same system in a run where \<^verbatim>\<open>perror\<close> leaves 22 in \<^verbatim>\<open>errno\<close>.\<close>

definition clobbering_env :: env where
  "clobbering_env = example_env\<lparr>perror_errno := (\<lambda>errno. 22)\<rparr>"

section \<open>Properties of the mode decoding\<close>

lemmas mode_consts =
  S_IFMT_def S_IAMB_def S_IFIFO_def S_IFCHR_def S_IFDIR_def S_IFBLK_def S_IFREG_def
  S_IFLNK_def S_IFSOCK_def S_IFDOOR_def S_IFPORT_def S_ISUID_def S_ISGID_def S_ISVTX_def
  S_IRUSR_def S_IWUSR_def S_IXUSR_def S_IRGRP_def S_IWGRP_def S_IXGRP_def
  S_IROTH_def S_IWOTH_def S_IXOTH_def

lemmas perms_defs =
  symbolic_mode_def file_type_char_def user_perms_def group_perms_def other_perms_def

text \<open>
  C7: the file-type label and the type character follow the fixed table, selected by the
  type bits of the mode; a mode whose type bits are none of the nine known values is
  \<^verbatim>\<open><unknown>\<close> and \<^verbatim>\<open>?\<close>.
\<close>

theorem file_type_mapping:
  "(m AND S_IFMT = S_IFIFO \<longrightarrow> file_type m = ''named fifo'' \<and> file_type_char m = CHR ''p'') \<and>
   (m AND S_IFMT = S_IFCHR \<longrightarrow> file_type m = ''character device'' \<and> file_type_char m = CHR ''c'') \<and>
   (m AND S_IFMT = S_IFDIR \<longrightarrow> file_type m = ''directory'' \<and> file_type_char m = CHR ''d'') \<and>
   (m AND S_IFMT = S_IFBLK \<longrightarrow> file_type m = ''block device'' \<and> file_type_char m = CHR ''b'') \<and>
   (m AND S_IFMT = S_IFREG \<longrightarrow> file_type m = ''regular file'' \<and> file_type_char m = CHR ''-'') \<and>
   (m AND S_IFMT = S_IFLNK \<longrightarrow> file_type m = ''symbolic link'' \<and> file_type_char m = CHR ''l'') \<and>
   (m AND S_IFMT = S_IFSOCK \<longrightarrow> file_type m = ''socket'' \<and> file_type_char m = CHR ''s'') \<and>
   (m AND S_IFMT = S_IFDOOR \<longrightarrow> file_type m = ''door'' \<and> file_type_char m = CHR ''D'') \<and>
   (m AND S_IFMT = S_IFPORT \<longrightarrow> file_type m = ''event port'' \<and> file_type_char m = CHR ''P'') \<and>
   (m AND S_IFMT \<notin> {S_IFIFO, S_IFCHR, S_IFDIR, S_IFBLK, S_IFREG, S_IFLNK, S_IFSOCK, S_IFDOOR, S_IFPORT}
      \<longrightarrow> file_type m = ''<unknown>'' \<and> file_type_char m = CHR ''?'')"
  by (simp add: file_type_def file_type_char_def Let_def mode_consts)

theorem file_type_mapping_witness:
  "((0x11A4::mode_t) AND S_IFMT = S_IFIFO \<and> file_type 0x11A4 = ''named fifo'' \<and> file_type_char 0x11A4 = CHR ''p'') \<and>
   ((0x21A4::mode_t) AND S_IFMT = S_IFCHR \<and> file_type 0x21A4 = ''character device'' \<and> file_type_char 0x21A4 = CHR ''c'') \<and>
   ((0x41ED::mode_t) AND S_IFMT = S_IFDIR \<and> file_type 0x41ED = ''directory'' \<and> file_type_char 0x41ED = CHR ''d'') \<and>
   ((0x61A4::mode_t) AND S_IFMT = S_IFBLK \<and> file_type 0x61A4 = ''block device'' \<and> file_type_char 0x61A4 = CHR ''b'') \<and>
   ((0x81A4::mode_t) AND S_IFMT = S_IFREG \<and> file_type 0x81A4 = ''regular file'' \<and> file_type_char 0x81A4 = CHR ''-'') \<and>
   ((0xA1FF::mode_t) AND S_IFMT = S_IFLNK \<and> file_type 0xA1FF = ''symbolic link'' \<and> file_type_char 0xA1FF = CHR ''l'') \<and>
   ((0xC1ED::mode_t) AND S_IFMT = S_IFSOCK \<and> file_type 0xC1ED = ''socket'' \<and> file_type_char 0xC1ED = CHR ''s'') \<and>
   ((0xD1A4::mode_t) AND S_IFMT = S_IFDOOR \<and> file_type 0xD1A4 = ''door'' \<and> file_type_char 0xD1A4 = CHR ''D'') \<and>
   ((0xE1A4::mode_t) AND S_IFMT = S_IFPORT \<and> file_type 0xE1A4 = ''event port'' \<and> file_type_char 0xE1A4 = CHR ''P'') \<and>
   ((0x51A4::mode_t) AND S_IFMT \<notin> {S_IFIFO, S_IFCHR, S_IFDIR, S_IFBLK, S_IFREG, S_IFLNK, S_IFSOCK, S_IFDOOR, S_IFPORT}
      \<and> file_type 0x51A4 = ''<unknown>'' \<and> file_type_char 0x51A4 = CHR ''?'')"
  using file_type_mapping [of "0x11A4"] file_type_mapping [of "0x21A4"]
    file_type_mapping [of "0x41ED"] file_type_mapping [of "0x61A4"]
    file_type_mapping [of "0x81A4"] file_type_mapping [of "0xA1FF"]
    file_type_mapping [of "0xC1ED"] file_type_mapping [of "0xD1A4"]
    file_type_mapping [of "0xE1A4"] file_type_mapping [of "0x51A4"]
  by (simp add: mode_consts)

subsection \<open>The symbolic mode\<close>

lemma symbolic_mode_length: "length (symbolic_mode m) = 10"
  by (simp add: symbolic_mode_def user_perms_def group_perms_def other_perms_def)

text \<open>
  The owner and group triplets put \<^verbatim>\<open>s\<close> or \<^verbatim>\<open>S\<close> in the execute position when the
  setuid or setgid bit is set; the last position is decided by the execute bit for
  others alone.
\<close>

lemma symbolic_mode_execute_positions:
  "symbolic_mode m ! 3 =
     (if m AND S_ISUID \<noteq> 0 then (if m AND S_IXUSR \<noteq> 0 then CHR ''s'' else CHR ''S'')
      else (if m AND S_IXUSR \<noteq> 0 then CHR ''x'' else CHR ''-''))"
  "symbolic_mode m ! 6 =
     (if m AND S_ISGID \<noteq> 0 then (if m AND S_IXGRP \<noteq> 0 then CHR ''s'' else CHR ''S'')
      else (if m AND S_IXGRP \<noteq> 0 then CHR ''x'' else CHR ''-''))"
  "symbolic_mode m ! 9 = (if m AND S_IXOTH \<noteq> 0 then CHR ''x'' else CHR ''-'')"
  by (simp_all add: symbolic_mode_def user_perms_def group_perms_def other_perms_def
      nth_Cons' nth_append)

lemma symbolic_mode_examples:
  "symbolic_mode 0x81ED = ''-rwxr-xr-x''"
  "symbolic_mode 0x89ED = ''-rwsr-xr-x''"
  "symbolic_mode 0x89AD = ''-rwSr-xr-x''"
  by (simp_all add: perms_defs mode_consts)

text \<open>
  C2: the rendering of the sticky bit. A directory of mode 1777 (\<^verbatim>\<open>st_mode\<close> 041777,
  as \<^verbatim>\<open>/tmp\<close> has) is rendered \<^verbatim>\<open>drwxrwxrwx\<close>: the sticky bit is set, and the last
  position is \<^verbatim>\<open>x\<close>, not \<^verbatim>\<open>t\<close>.
\<close>

theorem symbolic_mode_sticky_directory:
  "(0x43FF :: mode_t) AND S_ISVTX \<noteq> 0 \<and> symbolic_mode 0x43FF = ''drwxrwxrwx''"
  by (simp add: perms_defs mode_consts)

subsection \<open>The octal field\<close>

lemma unat_and_S_IAMB: "unat (m AND S_IAMB) = unat m mod 512"
proof -
  have "S_IAMB = (mask 9 :: mode_t)" by (simp add: S_IAMB_def mask_eq_exp_minus_1)
  then have "unat (m AND S_IAMB) = unat (take_bit 9 m)" by (simp only: take_bit_eq_mask)
  also have "\<dots> = take_bit 9 (unat m)" by (simp only: unsigned_take_bit_eq)
  also have "\<dots> = unat m mod 512" by (simp add: take_bit_eq_mod)
  finally show ?thesis .
qed

lemma pad_left_4_1: "pad_left 4 c [x] = [c, c, c, x]"
  and pad_left_4_2: "pad_left 4 c [x, y] = [c, c, x, y]"
  and pad_left_4_3: "pad_left 4 c [x, y, z] = [c, x, y, z]"
  by (simp_all add: pad_left_def numeral_3_eq_3 numeral_2_eq_2)

lemma fmt_04o_digits:
  assumes "n < 512"
  shows "fmt_04o n =
    [CHR ''0'', digit_char (n div 64), digit_char (n div 8 mod 8), digit_char (n mod 8)]"
proof -
  consider "n < 8" | "8 \<le> n" "n < 64" | "64 \<le> n" by linarith
  then show ?thesis
  proof cases
    case 1
    then show ?thesis
      by (simp add: fmt_04o_def pad_left_4_1 to_base.simps [of 8 n] digit_char_def)
  next
    case 2
    then have "n div 8 < 8" by simp
    with 2 show ?thesis
      by (simp add: fmt_04o_def pad_left_4_2 to_base.simps [of 8 n]
          to_base.simps [of 8 "n div 8"] digit_char_def)
  next
    case 3
    with assms have a: "n div 8 < 64" "8 \<le> n div 8" "n div 8 div 8 < 8" "\<not> n < 8"
      by simp_all
    have b: "n div 8 div 8 = n div 64" by (simp add: div_mult2_eq [symmetric])
    from a b show ?thesis
      by (simp add: fmt_04o_def pad_left_4_3 to_base.simps [of 8 n]
          to_base.simps [of 8 "n div 8"] to_base.simps [of 8 "n div 64"])
  qed
qed

lemma mod512_a: "(n::nat) mod 512 div 64 = n div 64 mod 8"
  using mod_mult2_eq [of n 64 8] by simp

lemma mod512_b: "(n::nat) mod 512 div 8 mod 8 = n div 8 mod 8"
  using mod_mult2_eq [of n 8 64] by (simp add: mod_mod_cancel)

lemma mod512_c: "(n::nat) mod 512 mod 8 = n mod 8"
  by (simp add: mod_mod_cancel)

lemma octal_field_digits:
  "octal_field m =
     [CHR ''0'', digit_char (unat m div 64 mod 8), digit_char (unat m div 8 mod 8),
      digit_char (unat m mod 8)]"
proof -
  have lt: "unat m mod 512 < 512" by simp
  show ?thesis
    unfolding octal_field_def unat_and_S_IAMB fmt_04o_digits [OF lt] mod512_a mod512_b mod512_c ..
qed

lemma special_bits_masked:
  "(m OR S_ISUID OR S_ISGID OR S_ISVTX) AND S_IAMB = m AND S_IAMB"
proof -
  have z: "(S_ISUID OR S_ISGID OR S_ISVTX) AND S_IAMB = 0"
    by (simp add: S_ISUID_def S_ISGID_def S_ISVTX_def S_IAMB_def)
  have "(m OR (S_ISUID OR S_ISGID OR S_ISVTX)) AND S_IAMB =
        (m AND S_IAMB) OR ((S_ISUID OR S_ISGID OR S_ISVTX) AND S_IAMB)"
    by (rule bit.conj_disj_distrib2)
  then show ?thesis
    by (simp only: z or.right_neutral)
qed

text \<open>
  C10: the octal field of the permissions line is \<^verbatim>\<open>%04o\<close> of the mode masked with
  0777: a zero and the three octal digits of the low nine bits. It is the same whether or
  not the setuid, setgid and sticky bits are set; for mode 4755 on a regular file it is
  \<^verbatim>\<open>0755\<close>.
\<close>

theorem octal_field_low_nine_bits:
  "take 13 (decode_permissions env finfo) = ''Access: ('' @ octal_field (st_mode finfo) \<and>
   octal_field m = fmt_04o (unat (m AND 0x1FF)) \<and>
   octal_field m =
     [CHR ''0'', digit_char (unat m div 64 mod 8), digit_char (unat m div 8 mod 8),
      digit_char (unat m mod 8)] \<and>
   octal_field (m OR S_ISUID OR S_ISGID OR S_ISVTX) = octal_field m \<and>
   octal_field 0x89ED = ''0755''"
proof -
  have len: "length (octal_field (st_mode finfo)) = 4"
    by (simp add: octal_field_digits)
  have "take 13 (decode_permissions env finfo) = ''Access: ('' @ octal_field (st_mode finfo)"
    by (simp add: decode_permissions_def len)
  moreover have "octal_field m = fmt_04o (unat (m AND 0x1FF))"
    by (simp add: octal_field_def S_IAMB_def)
  moreover have "octal_field (m OR S_ISUID OR S_ISGID OR S_ISVTX) = octal_field m"
    by (simp only: octal_field_def special_bits_masked)
  moreover have "octal_field 0x89ED = ''0755''"
    by (simp add: octal_field_digits digit_char_def)
  ultimately show ?thesis
    using octal_field_digits [of m] by simp
qed

section \<open>Names of owners\<close>

lemma fmt_8s_unknown: "fmt_8s ''<unknown>'' = ''<unknown>''"
  by (simp add: fmt_8s_def pad_left_def)

text \<open>
  C4 as amended: when the owner's user id (or group id) has no entry, the permissions
  line prints the id as a signed decimal number and the literal \<^verbatim>\<open><unknown>\<close>,
  angle brackets included, in place of the name.
\<close>

theorem unknown_owner_name:
  "(getpwuid_r env (st_uid finfo) = None \<longrightarrow>
      decode_permissions env finfo =
        ''Access: ('' @ octal_field (st_mode finfo) @ ''/'' @ symbolic_mode (st_mode finfo) @
        '')  Uid: ('' @ fmt_5d (sint (st_uid finfo)) @ ''/<unknown>)   '' @
        gid_field env (st_gid finfo) @ NL) \<and>
   (getgrgid_r env (st_gid finfo) = None \<longrightarrow>
      decode_permissions env finfo =
        ''Access: ('' @ octal_field (st_mode finfo) @ ''/'' @ symbolic_mode (st_mode finfo) @
        '')  '' @ uid_field env (st_uid finfo) @
        ''   Gid: ('' @ fmt_5d (sint (st_gid finfo)) @ ''/<unknown>)'' @ NL)"
  by (simp add: decode_permissions_def uid_field_def gid_field_def get_uid_string_def
      get_gid_string_def fmt_8s_unknown)


lemma replicate_numeral: "replicate (numeral k) x = x # replicate (pred_numeral k) x"
  by (simp add: numeral_eq_Suc)

lemma example_ids:
  "getpwuid_r example_env 1001 = None" "getgrgid_r example_env 99 = None"
  "getgrgid_r example_env 10 = Some ''staff''"
  by (simp_all add: example_env_def)

lemma fmt_5d_examples: "fmt_5d 1001 = '' 1001''" "fmt_5d 99 = ''   99''" "fmt_5d 10 = ''   10''"
  by (simp_all add: fmt_5d_def show_int_def to_base.simps pad_left_def digit_char_def replicate_numeral)

lemma mode_0644: "octal_field 0x81A4 = ''0644''" "symbolic_mode 0x81A4 = ''-rw-r--r--''"
  by (simp_all add: octal_field_digits digit_char_def perms_defs mode_consts)

theorem unknown_owner_name_witness:
  "getpwuid_r example_env (st_uid notes_stat) = None \<and>
   decode_permissions example_env notes_stat =
     ''Access: (0644/-rw-r--r--)  Uid: ( 1001/<unknown>)   Gid: (   10/   staff)'' @ NL \<and>
   getgrgid_r example_env (st_gid (notes_stat\<lparr>st_gid := 99\<rparr>)) = None \<and>
   decode_permissions example_env (notes_stat\<lparr>st_gid := 99\<rparr>) =
     ''Access: (0644/-rw-r--r--)  Uid: ( 1001/<unknown>)   Gid: (   99/<unknown>)'' @ NL"
proof -
  have u: "getpwuid_r example_env (st_uid notes_stat) = None"
    by (simp add: notes_stat_def example_ids)
  have g: "getgrgid_r example_env (st_gid (notes_stat\<lparr>st_gid := 99\<rparr>)) = None"
    by (simp add: example_ids)
  have "decode_permissions example_env notes_stat =
     ''Access: (0644/-rw-r--r--)  Uid: ( 1001/<unknown>)   Gid: (   10/   staff)'' @ NL"
    using unknown_owner_name [of example_env notes_stat] u
    by (simp add: notes_stat_def mode_0644 fmt_5d_examples gid_field_def get_gid_string_def
        example_ids fmt_8s_def pad_left_def replicate_numeral)
  moreover have "decode_permissions example_env (notes_stat\<lparr>st_gid := 99\<rparr>) =
     ''Access: (0644/-rw-r--r--)  Uid: ( 1001/<unknown>)   Gid: (   99/<unknown>)'' @ NL"
    using unknown_owner_name [of example_env "notes_stat\<lparr>st_gid := 99\<rparr>"] g
    by (simp add: notes_stat_def mode_0644 fmt_5d_examples uid_field_def get_uid_string_def
        gid_field_def get_gid_string_def example_ids fmt_8s_def pad_left_def replicate_numeral)
  ultimately show ?thesis using u g by simp
qed

text \<open>
  C4 as stated: for user id 1001, which has no entry, the substituted text is not the
  literal \<^verbatim>\<open>unknown\<close>.
\<close>

theorem unknown_literal_counterexample:
  "getpwuid_r example_env 1001 = None \<and>
   get_uid_string example_env 1001 \<noteq> ''unknown'' \<and>
   uid_field example_env 1001 = ''Uid: ( 1001/<unknown>)''"
  by (simp add: uid_field_def get_uid_string_def example_env_def fmt_8s_unknown fmt_5d_def show_int_def
     to_base.simps pad_left_def digit_char_def)

section \<open>Options and usage\<close>

lemma printf_fields [simp]:
  "out (printf s w) = out w @ s" "err (printf s w) = err w"
  "queries (printf s w) = queries w" "target (printf s w) = target w"
  by (simp_all add: printf_def)

lemma world0_fields [simp]:
  "out (world0 env) = []" "err (world0 env) = []" "queries (world0 env) = []"
  "target (world0 env) = stack env"
  by (simp_all add: world0_def)

lemma parse_options_no_help:
  "CHR ''h'' \<notin> set opts \<Longrightarrow>
   parse_options env exe opts n b w =
     (Some (b \<or> CHR ''L'' \<in> set opts), w\<lparr>err := err w @ getopt_errors env opts n\<rparr>)"
  by (induction opts arbitrary: n b w) (auto simp: getopt_long_def Let_def)

lemma example_stderr:
  "getopt_diag example_env n = ''stat: illegal option -- x'' @ NL"
  "perror_errno example_env e = e"
  "strerror example_env 13 = ''Permission denied''"
  "strerror example_env 2 = ''No such file or directory''"
  by (simp_all add: example_env_def)

lemma example_stack: "stack example_env = replicate 1024 (CHR 0x00)"
  by (simp add: example_env_def MAXPATHLEN_def)

text \<open>
  C8: when the option loop has finished (no \<^verbatim>\<open>-h\<close>) and no path argument remains, the
  program prints the line \<^verbatim>\<open>ERROR:  no files provided\<close> and the usage text on standard
  output, makes no metadata query and returns 22 (EINVAL). Standard error holds what
  \<^verbatim>\<open>getopt_long\<close> wrote for unknown options and nothing else.
\<close>

theorem no_paths_is_usage_error:
  assumes "CHR ''h'' \<notin> set opts"
  shows "main env exe opts [] =
           (22, \<lparr>out = ''ERROR:  no files provided'' @ NL @
                   ''usage:'' @ NL @ NL @
                   ''  '' @ exe @ '' {options} <path> {<path> ..}'' @ NL @ NL @
                   '' options:'' @ NL @ NL @
                   ''  -h/--help            display this help and exit'' @ NL @
                   ''  -L/--dereference     follow symlinks'' @ NL @ NL,
                 err = getopt_errors env opts 0, queries = [], target = stack env\<rparr>)"
  using assms
  by (simp add: main_def parse_options_no_help printf_def world0_def usage_def EINVAL_def)

theorem no_paths_is_usage_error_witness:
  "CHR ''h'' \<notin> set [CHR ''L'', CHR ''?''] \<and>
   main example_env ''stat'' [CHR ''L'', CHR ''?''] [] =
     (22, \<lparr>out = ''ERROR:  no files provided'' @ NL @
             ''usage:'' @ NL @ NL @
             ''  stat {options} <path> {<path> ..}'' @ NL @ NL @
             '' options:'' @ NL @ NL @
             ''  -h/--help            display this help and exit'' @ NL @
             ''  -L/--dereference     follow symlinks'' @ NL @ NL,
           err = ''stat: illegal option -- x'' @ NL, queries = [],
           target = replicate 1024 (CHR 0x00)\<rparr>)"
proof -
  have h: "CHR ''h'' \<notin> set [CHR ''L'', CHR ''?'']" by simp
  from no_paths_is_usage_error [OF h, of example_env "''stat''"] h
  show ?thesis by (simp add: example_stderr example_stack)
qed

section \<open>The loop over the paths\<close>

lemma perror_fields [simp]:
  "fst (perror env msg e w) = perror_errno env e"
  "out (snd (perror env msg e w)) = out w"
  "err (snd (perror env msg e w)) = err w @ msg @ '': '' @ strerror env e @ NL"
  "queries (snd (perror env msg e w)) = queries w"
  "target (snd (perror env msg e w)) = target w"
  by (simp_all add: perror_def)

lemma print_file_line_fields [simp]:
  "err (print_file_line env p finfo w) = err w"
  "queries (print_file_line env p finfo w) = queries w"
  by (simp_all add: print_file_line_def split: prod.splits)

lemma show_file_fields [simp]:
  "err (show_file env p finfo w) = err w"
  "queries (show_file env p finfo w) = queries w"
  by (simp_all add: show_file_def Let_def)

lemma stat_loop_stopped: "rc \<noteq> 0 \<Longrightarrow> stat_loop env f ps rc w = (rc, w)"
  by (cases ps) simp_all

lemma stat_loop_append:
  "stat_loop env f (ps @ qs) rc w =
     (case stat_loop env f ps rc w of (rc', w') \<Rightarrow> stat_loop env f qs rc' w')"
proof (induction ps arbitrary: rc w)
  case Nil
  then show ?case by simp
next
  case (Cons p ps)
  show ?case
  proof (cases "rc = 0")
    case True
    then show ?thesis by (simp add: Cons.IH Let_def split: sum.splits prod.splits)
  next
    case False
    then show ?thesis by (simp add: stat_loop_stopped)
  qed
qed

lemma stat_loop_all_succeed:
  assumes "\<forall>p\<in>set ps. \<exists>finfo. stat_fn env f p = Inr finfo"
  shows "fst (stat_loop env f ps 0 w) = 0 \<and>
         queries (snd (stat_loop env f ps 0 w)) = queries w @ ps \<and>
         err (snd (stat_loop env f ps 0 w)) = err w"
  using assms
proof (induction ps arbitrary: w)
  case Nil
  then show ?case by simp
next
  case (Cons p ps)
  then obtain finfo where "stat_fn env f p = Inr finfo" by auto
  with Cons show ?case by (simp add: Let_def)
qed

lemma stat_loop_failure:
  assumes "stat_fn env f q = Inl e" "perror_errno env e \<noteq> 0"
  shows "stat_loop env f (q # rest) 0 w =
           perror env ''Unable to stat() file'' e (w\<lparr>queries := queries w @ [q]\<rparr>)"
  using assms by (simp add: Let_def stat_loop_stopped perror_def)

text \<open>
  A run whose first failing query is that of \<open>q\<close>: the loop ends there, with the value
  that \<^verbatim>\<open>perror\<close> leaves in \<^verbatim>\<open>errno\<close>.
\<close>

lemma first_failure_ends_loop:
  assumes opts: "CHR ''h'' \<notin> set opts"
    and ok: "\<forall>p\<in>set ps. \<exists>finfo. stat_fn env (CHR ''L'' \<in> set opts) p = Inr finfo"
    and fail: "stat_fn env (CHR ''L'' \<in> set opts) q = Inl e"
    and nz: "perror_errno env e \<noteq> 0"
  shows "fst (main env exe opts (ps @ q # rest)) = perror_errno env e \<and>
         queries (snd (main env exe opts (ps @ q # rest))) = ps @ [q] \<and>
         err (snd (main env exe opts (ps @ q # rest))) =
           getopt_errors env opts 0 @ ''Unable to stat() file: '' @ strerror env e @ NL \<and>
         out (snd (main env exe opts (ps @ q # rest))) =
           out (snd (stat_loop env (CHR ''L'' \<in> set opts) ps 0
             ((world0 env)\<lparr>err := getopt_errors env opts 0\<rparr>)))"
proof -
  let ?f = "CHR ''L'' \<in> set opts"
  let ?w0 = "(world0 env)\<lparr>err := getopt_errors env opts 0\<rparr>"
  obtain w where w: "stat_loop env ?f ps 0 ?w0 = (0, w)"
    using stat_loop_all_succeed [OF ok, of ?w0] by (cases "stat_loop env ?f ps 0 ?w0") simp
  have q: "queries w = ps" "err w = getopt_errors env opts 0"
    using stat_loop_all_succeed [OF ok, of ?w0] w by simp_all
  have "main env exe opts (ps @ q # rest) =
          perror env ''Unable to stat() file'' e (w\<lparr>queries := queries w @ [q]\<rparr>)"
    using opts
    by (simp add: main_def parse_options_no_help stat_loop_append w
        stat_loop_failure [OF fail nz] del: stat_loop.simps)
  then show ?thesis using q w by simp
qed

lemma main_paths:
  assumes "CHR ''h'' \<notin> set opts" and "ps \<noteq> []"
  shows "main env exe opts ps =
     stat_loop env (CHR ''L'' \<in> set opts) ps 0 ((world0 env)\<lparr>err := getopt_errors env opts 0\<rparr>)"
  using assms by (simp add: main_def parse_options_no_help del: stat_loop.simps)

text \<open>
  C1 as amended: when the option loop has finished, the paths before \<open>q\<close> are queried
  with success and the query for \<open>q\<close> fails, the program reports the error with
  \<^verbatim>\<open>perror\<close> on standard error and stops. The paths up to \<open>q\<close> are the only ones
  queried, and the output is that of a run on the paths before \<open>q\<close> alone: no path
  after \<open>q\<close> is queried or formatted. (\<^verbatim>\<open>perror\<close>, as every library function, leaves
  \<^verbatim>\<open>errno\<close> different from zero.)
\<close>

theorem stops_at_first_failure:
  assumes opts: "CHR ''h'' \<notin> set opts"
    and ok: "\<forall>p\<in>set ps. \<exists>finfo. stat_fn env (CHR ''L'' \<in> set opts) p = Inr finfo"
    and fail: "stat_fn env (CHR ''L'' \<in> set opts) q = Inl e"
    and nz: "perror_errno env e \<noteq> 0"
  shows "queries (snd (main env exe opts (ps @ q # rest))) = ps @ [q] \<and>
         err (snd (main env exe opts (ps @ q # rest))) =
           getopt_errors env opts 0 @ ''Unable to stat() file: '' @ strerror env e @ NL \<and>
         (ps = [] \<longrightarrow> out (snd (main env exe opts (ps @ q # rest))) = []) \<and>
         (ps \<noteq> [] \<longrightarrow>
            out (snd (main env exe opts (ps @ q # rest))) = out (snd (main env exe opts ps)))"
  using first_failure_ends_loop [OF opts ok fail nz, of exe rest]
  by (auto simp: main_paths [OF opts])

lemma example_queries:
  "stat_fn example_env False ''missing'' = Inl 2"
  "stat_fn example_env False ''secret'' = Inl 13"
  "stat_fn example_env False ''notes'' = Inr notes_stat"
  "stat_fn example_env False ''/'' = Inr root_stat"
  "stat_fn example_env True ''notes'' = Inr notes_stat"
  by (simp_all add: stat_fn_def example_env_def)

text \<open>
  C1 as stated: with the arguments \<^verbatim>\<open>missing notes\<close>, of which the first does not
  exist and the second does, the program queries \<^verbatim>\<open>missing\<close> only and prints nothing
  for \<^verbatim>\<open>notes\<close>.
\<close>

theorem later_path_not_queried_counterexample:
  "stat_fn example_env False ''missing'' = Inl 2 \<and>
   stat_fn example_env False ''notes'' = Inr notes_stat \<and>
   queries (snd (main example_env ''stat'' [] [''missing'', ''notes''])) = [''missing''] \<and>
   out (snd (main example_env ''stat'' [] [''missing'', ''notes''])) = []"
  by (simp add: example_queries main_def Let_def perror_def example_stderr)

theorem stops_at_first_failure_witness:
  "CHR ''h'' \<notin> set [CHR ''?''] \<and>
   stat_fn example_env False ''notes'' = Inr notes_stat \<and>
   stat_fn example_env False ''secret'' = Inl 13 \<and>
   perror_errno example_env 13 = 13 \<and>
   queries (snd (main example_env ''stat'' [CHR ''?''] [''notes'', ''secret'', ''/''])) =
     [''notes'', ''secret''] \<and>
   err (snd (main example_env ''stat'' [CHR ''?''] [''notes'', ''secret'', ''/''])) =
     ''stat: illegal option -- x'' @ NL @ ''Unable to stat() file: Permission denied'' @ NL \<and>
   out (snd (main example_env ''stat'' [CHR ''?''] [''notes'', ''secret'', ''/''])) =
     out (snd (main example_env ''stat'' [CHR ''?''] [''notes'']))"
proof -
  have h: "CHR ''h'' \<notin> set [CHR ''?'']" by simp
  have ok: "\<forall>p\<in>set [''notes'']. \<exists>finfo.
      stat_fn example_env (CHR ''L'' \<in> set [CHR ''?'']) p = Inr finfo"
    by (simp add: example_queries)
  have fail: "stat_fn example_env (CHR ''L'' \<in> set [CHR ''?'']) ''secret'' = Inl 13"
    by (simp add: example_queries)
  have nz: "perror_errno example_env 13 \<noteq> 0" by (simp add: example_stderr)
  from stops_at_first_failure [OF h ok fail nz, of "''stat''" "[''/'']"]
  show ?thesis by (simp add: example_queries example_stderr del: stat_loop.simps)
qed

text \<open>
  The exit code by cases, once the option loop has finished: 22 without a path, 0 when
  every query succeeds, and after a failing query the value that \<^verbatim>\<open>perror\<close> leaves in
  \<^verbatim>\<open>errno\<close>.
\<close>

lemma exit_code_cases:
  assumes opts: "CHR ''h'' \<notin> set opts"
  shows "fst (main env exe opts []) = 22"
    and "paths \<noteq> [] \<Longrightarrow> \<forall>p\<in>set paths. \<exists>finfo. stat_fn env (CHR ''L'' \<in> set opts) p = Inr finfo
           \<Longrightarrow> fst (main env exe opts paths) = 0"
    and "\<forall>p\<in>set ps. \<exists>finfo. stat_fn env (CHR ''L'' \<in> set opts) p = Inr finfo
           \<Longrightarrow> stat_fn env (CHR ''L'' \<in> set opts) q = Inl e \<Longrightarrow> perror_errno env e \<noteq> 0
           \<Longrightarrow> fst (main env exe opts (ps @ q # rest)) = perror_errno env e"
proof -
  show "fst (main env exe opts []) = 22"
    using opts by (simp add: main_def parse_options_no_help EINVAL_def)
  show "fst (main env exe opts paths) = 0"
    if "paths \<noteq> []" "\<forall>p\<in>set paths. \<exists>finfo. stat_fn env (CHR ''L'' \<in> set opts) p = Inr finfo"
    using that stat_loop_all_succeed by (simp add: main_paths [OF opts])
  show "fst (main env exe opts (ps @ q # rest)) = perror_errno env e"
    if "\<forall>p\<in>set ps. \<exists>finfo. stat_fn env (CHR ''L'' \<in> set opts) p = Inr finfo"
      "stat_fn env (CHR ''L'' \<in> set opts) q = Inl e" "perror_errno env e \<noteq> 0"
    using first_failure_ends_loop [OF opts that] by simp
qed

text \<open>
  C3: the exit code after a failed query. In a run where \<^verbatim>\<open>perror\<close> leaves 22 in
  \<^verbatim>\<open>errno\<close>, the query for \<^verbatim>\<open>secret\<close> fails with 13 (EACCES) and the exit code is
  22: \<^verbatim>\<open>rc = errno\<close> is executed after \<^verbatim>\<open>perror\<close> has returned.
\<close>

theorem exit_code_read_after_perror:
  "stat_fn clobbering_env False ''secret'' = Inl 13 \<and>
   perror_errno clobbering_env 13 = 22 \<and>
   fst (main clobbering_env ''stat'' [] [''secret'']) = 22"
proof -
  have a: "stat_fn clobbering_env False ''secret'' = Inl 13"
    and b: "perror_errno clobbering_env 13 = 22"
    by (simp_all add: clobbering_env_def example_env_def stat_fn_def)
  have "fst (main clobbering_env ''stat'' [] [''secret'']) = 22"
    by (simp add: main_def Let_def a b perror_def)
  with a b show ?thesis by simp
qed

lemma regular_not_symlink: "m AND S_IFMT = S_IFREG \<Longrightarrow> \<not> is_symlink m"
  by (simp add: is_symlink_def S_IFREG_def S_IFLNK_def)

lemma show_file_not_symlink:
  assumes "\<not> is_symlink (st_mode finfo)"
  shows "show_file env p finfo w =
     w\<lparr>out := out w @ ''  File: '' @ BQ @ p @ SQ @ NL @ size_device_lines env finfo @
        decode_permissions env finfo @ times_lines (format_times env finfo)\<rparr>"
  using assms by (simp add: show_file_def print_file_line_def printf_def Let_def)

text \<open>
  C6: for a regular file, for which \<^verbatim>\<open>stat\<close> and \<^verbatim>\<open>lstat\<close> return the same
  record, the program run with \<^verbatim>\<open>-L\<close> and without it ends in the same exit code and
  the same state: the same standard output, nothing on standard error.
\<close>

theorem regular_file_dereference_noop:
  assumes "sys_lstat env p = Inr finfo" and "sys_stat env p = Inr finfo"
    and "st_mode finfo AND S_IFMT = S_IFREG"
  shows "main env exe [CHR ''L''] [p] = main env exe [] [p] \<and>
         main env exe [] [p] =
           (0, \<lparr>out = ''  File: '' @ BQ @ p @ SQ @ NL @ size_device_lines env finfo @
                   decode_permissions env finfo @ times_lines (format_times env finfo),
                 err = [], queries = [p], target = stack env\<rparr>)"
  using assms
  by (simp add: main_def getopt_long_def stat_fn_def Let_def show_file_not_symlink
      regular_not_symlink world0_def)

theorem regular_file_dereference_noop_witness:
  "sys_lstat example_env ''notes'' = Inr notes_stat \<and>
   sys_stat example_env ''notes'' = Inr notes_stat \<and>
   st_mode notes_stat AND S_IFMT = S_IFREG \<and>
   main example_env ''stat'' [CHR ''L''] [''notes''] = main example_env ''stat'' [] [''notes''] \<and>
   fst (main example_env ''stat'' [] [''notes'']) = 0 \<and>
   queries (snd (main example_env ''stat'' [] [''notes''])) = [''notes'']"
proof -
  have a: "sys_lstat example_env ''notes'' = Inr notes_stat"
    and b: "sys_stat example_env ''notes'' = Inr notes_stat"
    by (simp_all add: example_env_def)
  have c: "st_mode notes_stat AND S_IFMT = S_IFREG"
    by (simp add: notes_stat_def S_IFMT_def S_IFREG_def)
  from regular_file_dereference_noop [OF a b c, of "''stat''"] a b c
  show ?thesis by simp
qed

section \<open>Symbolic links\<close>

text \<open>
  What the loop body prints for a symbolic link: \<^verbatim>\<open>readlink\<close> overwrites the first
  bytes of \<^verbatim>\<open>target\<close> and \<^verbatim>\<open>%s\<close> prints the array up to its first NUL.
\<close>

lemma show_file_symlink:
  assumes "is_symlink (st_mode finfo)" and "sys_readlink env p = Inr tgt"
  shows "show_file env p finfo w =
     w\<lparr>out := out w @ ''  File: '' @ BQ @ p @ SQ @ '' -> '' @ BQ @
          c_string (take (length (target w)) tgt @ drop (length tgt) (target w)) @ SQ @ NL @
          size_device_lines env finfo @ decode_permissions env finfo @
          times_lines (format_times env finfo),
        target := take (length (target w)) tgt @ drop (length tgt) (target w)\<rparr>"
  using assms
  by (simp add: show_file_def print_file_line_def readlink_def printf_def Let_def min_def)

lemma show_file_unreadable_link:
  assumes "is_symlink (st_mode finfo)" and "sys_readlink env p = Inl e"
  shows "show_file env p finfo w =
     w\<lparr>out := out w @ ''  File: '' @ BQ @ p @ SQ @ '' -> <unable to read target>'' @ NL @
          size_device_lines env finfo @ decode_permissions env finfo @
          times_lines (format_times env finfo)\<rparr>"
  using assms
  by (simp add: show_file_def print_file_line_def readlink_def printf_def Let_def)

lemma c_string_terminated:
  assumes "length tgt < length buf" and "CHR 0x00 \<notin> set tgt" and "buf ! length tgt = CHR 0x00"
  shows "c_string (take (length buf) tgt @ drop (length tgt) buf) = tgt"
proof -
  have "drop (length tgt) buf = CHR 0x00 # drop (Suc (length tgt)) buf"
    using assms(1,3) by (metis Cons_nth_drop_Suc)
  moreover have "\<forall>c\<in>set tgt. c \<noteq> CHR 0x00" using assms(2) by auto
  ultimately show ?thesis using assms(1) by (simp add: c_string_def)
qed

lemma symlink_type: "is_symlink m \<Longrightarrow> file_type m = ''symbolic link'' \<and> file_type_char m = CHR ''l''"
  by (simp add: is_symlink_def file_type_def file_type_char_def Let_def mode_consts)

text \<open>
  Without \<^verbatim>\<open>-L\<close>, a link whose contents are followed by a NUL in the array is
  reported as a link, with its contents after the arrow.
\<close>

lemma symlink_reported_as_link:
  assumes "sys_lstat env p = Inr finfo" and "is_symlink (st_mode finfo)"
    and "sys_readlink env p = Inr tgt"
    and "length tgt < length (stack env)" and "CHR 0x00 \<notin> set tgt"
    and "stack env ! length tgt = CHR 0x00"
  shows "main env exe [] [p] =
     (0, \<lparr>out = ''  File: '' @ BQ @ p @ SQ @ '' -> '' @ BQ @ tgt @ SQ @ NL @
             size_device_lines env finfo @ decode_permissions env finfo @
             times_lines (format_times env finfo),
           err = [], queries = [p],
           target = tgt @ drop (length tgt) (stack env)\<rparr>)"
  using assms c_string_terminated [OF assms(4,5,6)]
  by (simp add: main_def stat_fn_def Let_def show_file_symlink world0_def)

text \<open>
  When \<^verbatim>\<open>readlink\<close> fails the placeholder is printed, the other lines follow and the
  loop goes on with the remaining paths and \<open>rc = 0\<close>.
\<close>

lemma unreadable_link_goes_on:
  assumes "sys_lstat env p = Inr finfo" and "is_symlink (st_mode finfo)"
    and "sys_readlink env p = Inl e"
  shows "main env exe [] (p # rest) =
     stat_loop env False rest 0
       \<lparr>out = ''  File: '' @ BQ @ p @ SQ @ '' -> <unable to read target>'' @ NL @
             size_device_lines env finfo @ decode_permissions env finfo @
             times_lines (format_times env finfo),
        err = [], queries = [p], target = stack env\<rparr>"
  using assms
  by (simp add: main_def stat_fn_def Let_def show_file_unreadable_link world0_def)

text \<open>
  With \<^verbatim>\<open>-L\<close> the record is that of the target: its type is printed and the
  identity line has no arrow.
\<close>

lemma symlink_dereferenced:
  assumes "sys_stat env p = Inr finfo" and "\<not> is_symlink (st_mode finfo)"
  shows "main env exe [CHR ''L''] [p] =
     (0, \<lparr>out = ''  File: '' @ BQ @ p @ SQ @ NL @
             size_device_lines env finfo @ decode_permissions env finfo @
             times_lines (format_times env finfo),
           err = [], queries = [p], target = stack env\<rparr>)"
  using assms
  by (simp add: main_def getopt_long_def stat_fn_def Let_def show_file_not_symlink world0_def)

lemma example_links:
  "sys_lstat example_env ''a'' = Inr link_stat" "sys_lstat example_env ''b'' = Inr link_stat"
  "sys_readlink example_env ''a'' = Inr ''/very/long/target''"
  "sys_readlink example_env ''b'' = Inr ''/short''"
  "is_symlink (st_mode link_stat)"
  "stack example_env = replicate 1024 (CHR 0x00)"
  by (simp_all add: example_env_def link_stat_def is_symlink_def S_IFMT_def S_IFLNK_def MAXPATHLEN_def)

text \<open>
  C5: the identity line of a link. With the arguments \<^verbatim>\<open>a b\<close>, where \<^verbatim>\<open>a\<close> is a
  link to \<^verbatim>\<open>/very/long/target\<close> and \<^verbatim>\<open>b\<close> a link to \<^verbatim>\<open>/short\<close>, and an array
  that starts out zeroed, the line for \<^verbatim>\<open>b\<close> shows \<^verbatim>\<open>/shortlong/target\<close>:
  \<^verbatim>\<open>readlink\<close> appends no NUL, and the bytes of the earlier, longer contents are
  still in the array.
\<close>

theorem second_link_shows_stale_bytes:
  "main example_env ''stat'' [] [''a'', ''b''] =
     (0, \<lparr>out = ''  File: '' @ BQ @ ''a'' @ SQ @ '' -> '' @ BQ @ ''/very/long/target'' @ SQ @ NL @
             size_device_lines example_env link_stat @ decode_permissions example_env link_stat @
             times_lines (format_times example_env link_stat) @
             ''  File: '' @ BQ @ ''b'' @ SQ @ '' -> '' @ BQ @ ''/shortlong/target'' @ SQ @ NL @
             size_device_lines example_env link_stat @ decode_permissions example_env link_stat @
             times_lines (format_times example_env link_stat),
           err = [], queries = [''a'', ''b''],
           target = ''/shortlong/target'' @ replicate 1007 (CHR 0x00)\<rparr>)"
  by (simp add: main_def stat_fn_def Let_def world0_def example_links show_file_symlink c_string_def)

section \<open>Timestamps\<close>





























lemma example_localtime_r: "localtime_r example_env = localtime_fixed (- 18000)"
  by (simp add: example_env_def)

lemma example_localtime:
  "localtime_r example_env 1517501132 =
     \<lparr>tm_sec = 32, tm_min = 5, tm_hour = 11, tm_mday = 1, tm_mon = 1, tm_year = 118, tm_isdst = 0\<rparr>"
  "localtime_r example_env 1516683698 =
     \<lparr>tm_sec = 38, tm_min = 1, tm_hour = 0, tm_mday = 23, tm_mon = 0, tm_year = 118, tm_isdst = 0\<rparr>"
  unfolding example_localtime_r localtime_fixed_def civil_from_days_def Let_def
  by simp_all

lemma example_zone: "timezone example_env = 18000" "altzone example_env = 14400"
  by (simp_all add: example_env_def)

lemma example_format_times:
  "format_times example_env root_stat =
     (''2018-02-01 11:05:32-0500'', ''2018-01-23 00:01:38-0500'', ''2018-01-23 00:01:38-0500'')"
  unfolding format_times_def root_stat_def strftime_def fmt_z_def Let_def
  by (simp add: example_localtime example_zone)
    (simp add: fmt_02d_def fmt_04d_def fmt_0d_def show_int_def pad_left_def to_base.simps
      digit_char_def replicate_numeral)







section \<open>The sample output of the header comment\<close>

lemma example_root:
  "sys_lstat example_env ''/'' = Inr root_stat" "getpwuid_r example_env 0 = Some ''root''"
  "getgrgid_r example_env 0 = Some ''root''"
  by (simp_all add: example_env_def)

lemma root_is_directory: "\<not> is_symlink (st_mode root_stat)" "\<not> is_device_type (st_mode root_stat)"
  "file_type (st_mode root_stat) = ''directory''"
  by (simp_all add: root_stat_def is_symlink_def is_device_type_def file_type_def Let_def mode_consts)

lemma root_size_device_lines:
  "size_device_lines example_env root_stat =
     ''  Size: 1024      '' @ TAB @ ''Blocks: 2          IO Block: 8192 directory'' @ NL @
     ''Device: 1540001h/22282241d Inode: 2          Links: 38'' @ NL"
  unfolding size_device_lines_def
  by (simp add: root_is_directory)
    (simp add: root_stat_def fmt_m10lld_def fmt_mlld_def fmt_x_def fmt_d_def show_int_def
      pad_right_def to_base.simps digit_char_def replicate_numeral)

lemma root_decode_permissions:
  "decode_permissions example_env root_stat =
     ''Access: (0755/drwxr-xr-x)  Uid: (    0/    root)   Gid: (    0/    root)'' @ NL"
  by (simp add: decode_permissions_def root_stat_def octal_field_digits digit_char_def perms_defs
      mode_consts uid_field_def gid_field_def get_uid_string_def get_gid_string_def example_root
      fmt_5d_def fmt_8s_def show_int_def pad_left_def to_base.simps replicate_numeral)

text \<open>
  For the root directory of the header comment of \<^verbatim>\<open>stat.c\<close> the program prints the
  sample output given there.
\<close>

lemma header_sample_output:
  "main example_env ''./stat'' [] [''/''] =
     (0, \<lparr>out =
            ''  File: '' @ BQ @ ''/'' @ SQ @ NL @
            ''  Size: 1024      '' @ TAB @ ''Blocks: 2          IO Block: 8192 directory'' @ NL @
            ''Device: 1540001h/22282241d Inode: 2          Links: 38'' @ NL @
            ''Access: (0755/drwxr-xr-x)  Uid: (    0/    root)   Gid: (    0/    root)'' @ NL @
            ''Access: 2018-02-01 11:05:32-0500'' @ NL @
            ''Modify: 2018-01-23 00:01:38-0500'' @ NL @
            ''Change: 2018-01-23 00:01:38-0500'' @ NL,
          err = [], queries = [''/''], target = stack example_env\<rparr>)"
  by (simp add: main_def stat_fn_def example_root Let_def world0_def
      show_file_not_symlink [OF root_is_directory(1)] root_size_device_lines
      root_decode_permissions example_format_times times_lines_def)

end
